theory Spec2Isabelle
  imports Main
begin

section \<open>JavaScript values used by the chess plugin\<close>

text \<open>
  The plugin (server/chat-plugins/chess.ts) computes with JavaScript numbers, strings and
  bigints. Every number it produces is an integer or \<open>NaN\<close> (the result of
  \<open>parseInt\<close> on a character that is no digit), so a number is modelled as
  \<open>NaN\<close> or an \<open>int\<close>. Column values are always integers (they come from
  \<open>indexOf\<close>, literals and loop counters) and are modelled as \<open>int\<close>.
\<close>

datatype number = NaN | Num int

text \<open>\<open>x + k\<close>, \<open>x * k\<close> and the comparisons of a number with an integer; every
  comparison with \<open>NaN\<close> is false.\<close>

fun numPlus :: "number \<Rightarrow> int \<Rightarrow> number" where
  "numPlus NaN k = NaN"
| "numPlus (Num x) k = Num (x + k)"

fun numTimes :: "number \<Rightarrow> int \<Rightarrow> number" where
  "numTimes NaN k = NaN"
| "numTimes (Num x) k = Num (x * k)"

fun numEquals :: "number \<Rightarrow> int \<Rightarrow> bool" where
  "numEquals NaN k = False"
| "numEquals (Num x) k = (x = k)"

fun numLess :: "number \<Rightarrow> int \<Rightarrow> bool" where
  "numLess NaN k = False"
| "numLess (Num x) k = (x < k)"

fun numAtLeast :: "number \<Rightarrow> int \<Rightarrow> bool" where
  "numAtLeast NaN k = False"
| "numAtLeast (Num x) k = (k \<le> x)"

text \<open>\<open>Math.abs(x - y) === k\<close>.\<close>

fun absDiffEquals :: "number \<Rightarrow> number \<Rightarrow> int \<Rightarrow> bool" where
  "absDiffEquals (Num x) (Num y) k = (\<bar>x - y\<bar> = k)"
| "absDiffEquals _ _ k = False"

text \<open>A string is a list of characters; \<open>s[i]\<close> is \<open>undefined\<close> (here \<open>None\<close>)
  past the end.\<close>

definition charAt :: "string \<Rightarrow> nat \<Rightarrow> char option" where
  "charAt s i = (if i < length s then Some (s ! i) else None)"

text \<open>\<open>s.indexOf(c)\<close> for a one-character needle: the first index, or -1.\<close>

fun indexOfChar :: "string \<Rightarrow> char \<Rightarrow> int" where
  "indexOfChar [] c = -1"
| "indexOfChar (x # xs) c =
     (if x = c then 0
      else (let i = indexOfChar xs c in if i < 0 then -1 else i + 1))"

text \<open>\<open>s.indexOf(position[0])\<close>: an undefined needle is searched as the text
  "undefined", which is not part of the eight letters.\<close>

fun indexOf :: "string \<Rightarrow> char option \<Rightarrow> int" where
  "indexOf s None = -1"
| "indexOf s (Some c) = indexOfChar s c"

text \<open>\<open>parseInt(position[1])\<close>: the argument is one character or undefined; the result
  is the digit's value, and \<open>NaN\<close> for anything else.\<close>

fun parseInt :: "char option \<Rightarrow> number" where
  "parseInt None = NaN"
| "parseInt (Some c) =
     (let i = indexOfChar ''0123456789'' c in if i < 0 then NaN else Num i)"

text \<open>The decimal text of a number, as a template literal prints it.\<close>

fun digitsOf :: "nat \<Rightarrow> string" where
  "digitsOf n =
     (if n < 10 then [''0123456789'' ! n]
      else digitsOf (n div 10) @ [''0123456789'' ! (n mod 10)])"

declare digitsOf.simps [simp del]

fun numberToString :: "number \<Rightarrow> string" where
  "numberToString NaN = ''NaN''"
| "numberToString (Num x) =
     (if x < 0 then CHR ''-'' # digitsOf (nat (- x)) else digitsOf (nat x))"

text \<open>\<open>s.toLowerCase()\<close> on ASCII text.\<close>

definition toLowerCase :: "string \<Rightarrow> string" where
  "toLowerCase s =
     map (\<lambda>c. if 65 \<le> (of_char c :: nat) \<and> (of_char c :: nat) \<le> 90
              then char_of ((of_char c :: nat) + 32) else c) s"

text \<open>Bigint shifts: a negative shift count shifts the other way.\<close>

definition shiftLeft :: "int \<Rightarrow> int \<Rightarrow> int" where
  "shiftLeft x k = (if 0 \<le> k then push_bit (nat k) x else drop_bit (nat (- k)) x)"

definition shiftRight :: "int \<Rightarrow> int \<Rightarrow> int" where
  "shiftRight x k = (if 0 \<le> k then drop_bit (nat k) x else push_bit (nat (- k)) x)"

section \<open>Errors\<close>

text \<open>
  The four \<open>Chat.ErrorMessage\<close>s of \<open>ChessGame.move\<close>, and the two run-time errors
  the code can raise on its way: \<open>TypeError\<close> (a property of \<open>undefined\<close> is read)
  and \<open>RangeError\<close> (\<open>BigInt(NaN)\<close>). A computation that can throw returns
  \<open>error + 'a\<close>, \<open>Inl\<close> being the throw.
\<close>

datatype error =
    InvalidMove | NoPieceAt | NotYourTurn | CannotCaptureOwnPiece
  | TypeError | RangeError

definition andThen :: "error + 'a \<Rightarrow> ('a \<Rightarrow> error + 'b) \<Rightarrow> error + 'b" where
  "andThen m f = (case m of Inl e \<Rightarrow> Inl e | Inr x \<Rightarrow> f x)"

text \<open>
  The check functions of the board call each other recursively without a bound
  (\<open>isKingInCheck\<close> \<rightarrow> \<open>getLegalMoves\<close> \<rightarrow> \<open>getKingMoves\<close> \<rightarrow> \<open>isKingInCheck\<close>).
  They are modelled with fuel, the depth of \<open>isKingInCheck\<close> calls allowed:
  \<open>None\<close> means that the call did not return within the fuel.
\<close>

definition andThenF ::
  "(error + 'a) option \<Rightarrow> ('a \<Rightarrow> (error + 'b) option) \<Rightarrow> (error + 'b) option" where
  "andThenF m f = (case m of None \<Rightarrow> None | Some (Inl e) \<Rightarrow> Some (Inl e) | Some (Inr x) \<Rightarrow> f x)"

section \<open>Positions and coordinates\<close>

datatype Color = White | Black

type_synonym Position = string

record Coord =
  row :: number
  col :: int

definition letters :: string where
  "letters = ''abcdefgh''"

definition positionToCoordinates :: "Position \<Rightarrow> Coord" where
  "positionToCoordinates position =
     (let letter = charAt position 0;
          number = parseInt (charAt position 1);
          col = indexOf letters letter;
          row = numPlus number (- 1)
      in \<lparr> row = row, col = col \<rparr>)"

text \<open>\<open>letters[coord.col]\<close> is undefined off the board, and prints as "undefined".\<close>

definition coordinatesToPosition :: "Coord \<Rightarrow> Position" where
  "coordinatesToPosition coord =
     (let letter = (if 0 \<le> col coord \<and> col coord < 8 then [letters ! nat (col coord)]
                    else ''undefined'');
          number = numPlus (row coord) 1
      in letter @ numberToString number)"

definition coordinatesToIndex :: "Coord \<Rightarrow> number" where
  "coordinatesToIndex coord = numPlus (numTimes (row coord) 8) (col coord)"

text \<open>The values of the type \<open>Position\<close>: a file letter and a rank digit.\<close>

definition validPosition :: "Position \<Rightarrow> bool" where
  "validPosition s =
     (length s = 2 \<and> s ! 0 \<in> set ''abcdefgh'' \<and> s ! 1 \<in> set ''12345678'')"

section \<open>The board\<close>

text \<open>
  A piece type is the four-bit tag stored in the bit field; the tags the code names are
  the nine below, and a square of a bit field can hold any value from 0 to 15.
\<close>

type_synonym PieceType = nat

definition Pawn :: PieceType where "Pawn = 1"
definition Rook :: PieceType where "Rook = 2"
definition Knight :: PieceType where "Knight = 3"
definition Bishop :: PieceType where "Bishop = 4"
definition Queen :: PieceType where "Queen = 5"
definition King :: PieceType where "King = 6"
definition PawnEnPassant :: PieceType where "PawnEnPassant = 7"
definition KingCastle :: PieceType where "KingCastle = 8"
definition RookCastle :: PieceType where "RookCastle = 9"

lemmas PieceType_defs =
  Pawn_def Rook_def Knight_def Bishop_def Queen_def King_def
  PawnEnPassant_def KingCastle_def RookCastle_def

datatype GameState = Prepared | Active | Checkmate | Stalemate | Draw

text \<open>The fields \<open>color\<close>, \<open>type\<close>, \<open>position\<close> and \<open>symbol\<close> of a
  \<open>Piece\<close>; the symbol of a tag outside the symbol table is undefined.\<close>

record Piece =
  pieceColor :: Color
  pieceType :: PieceType
  piecePosition :: Position
  pieceSymbol :: "string option"

text \<open>
  \<open>whitePieces\<close> and \<open>blackPieces\<close> are bigints: bit \<open>i\<close> (0..63) says that square
  \<open>i\<close> is occupied, and the four bits from \<open>64 + 4 * i\<close> hold the type of its piece.
\<close>

record ChessBoard =
  whitePieces :: int
  blackPieces :: int
  pawnsEnPassantWhite :: int
  pawnsEnPassantBlack :: int
  whiteCanCastle :: bool
  blackCanCastle :: bool

definition bitOffset :: int where "bitOffset = 4"
definition maxBinary :: int where "maxBinary = 15"

definition opponent :: "Color \<Rightarrow> Color" where
  "opponent c = (if c = White then Black else White)"

definition calculateBitLength :: "number \<Rightarrow> int" where
  "calculateBitLength position =
     (case position of NaN \<Rightarrow> 0 | Num p \<Rightarrow> p * bitOffset + 64)"

text \<open>
  \<open>setPiece\<close> and \<open>removePiece\<close> convert their position with \<open>BigInt(position)\<close>,
  which throws a RangeError on \<open>NaN\<close>. The conversion is \<open>toBigInt\<close>, written at
  the call sites that pass a computed index; the two functions are given for an integer
  position.
\<close>

definition toBigInt :: "number \<Rightarrow> error + int" where
  "toBigInt x = (case x of NaN \<Rightarrow> Inl RangeError | Num p \<Rightarrow> Inr p)"

definition setPiece :: "int \<Rightarrow> int \<Rightarrow> PieceType \<Rightarrow> int" where
  "setPiece board position t =
     (let board1 = or board (shiftLeft 1 position)
      in or board1 (shiftLeft (int t) (calculateBitLength (Num position))))"

definition removePiece :: "int \<Rightarrow> int \<Rightarrow> int" where
  "removePiece board position =
     (let board1 = and board (not (shiftLeft 1 position))
      in and board1 (not (shiftLeft maxBinary (calculateBitLength (Num position)))))"

definition initializeWhitePieces :: "int \<Rightarrow> int" where
  "initializeWhitePieces w0 =
     (let w1 = foldl (\<lambda>w i. setPiece w i Pawn) w0 [8..15];
          w2 = setPiece w1 0 Rook;
          w3 = setPiece w2 7 Rook;
          w4 = setPiece w3 1 Knight;
          w5 = setPiece w4 6 Knight;
          w6 = setPiece w5 2 Bishop;
          w7 = setPiece w6 5 Bishop;
          w8 = setPiece w7 3 Queen
      in setPiece w8 4 King)"

definition initializeBlackPieces :: "int \<Rightarrow> int" where
  "initializeBlackPieces b0 =
     (let b1 = foldl (\<lambda>b i. setPiece b i Pawn) b0 [48..55];
          b2 = setPiece b1 56 Rook;
          b3 = setPiece b2 63 Rook;
          b4 = setPiece b3 57 Knight;
          b5 = setPiece b4 62 Knight;
          b6 = setPiece b5 58 Bishop;
          b7 = setPiece b6 61 Bishop;
          b8 = setPiece b7 59 Queen
      in setPiece b8 60 King)"

text \<open>The constructor of \<open>ChessBoard\<close>.\<close>

definition newChessBoard :: ChessBoard where
  "newChessBoard =
     \<lparr> whitePieces = initializeWhitePieces 0,
       blackPieces = initializeBlackPieces 0,
       pawnsEnPassantWhite = 0,
       pawnsEnPassantBlack = 0,
       whiteCanCastle = True,
       blackCanCastle = True \<rparr>"

definition isOccupiedBy :: "ChessBoard \<Rightarrow> Position \<Rightarrow> Color \<Rightarrow> bool" where
  "isOccupiedBy b position c =
     (let board = (if c = White then whitePieces b else blackPieces b);
          coord = positionToCoordinates position;
          index = coordinatesToIndex coord
      in case index of
           NaN \<Rightarrow> False
         | Num i \<Rightarrow> and (shiftRight board i) 1 \<noteq> 0)"

definition symbols :: "PieceType \<Rightarrow> string option" where
  "symbols t =
     (if t = Pawn then Some ''P''
      else if t = Rook then Some ''R''
      else if t = Knight then Some ''N''
      else if t = Bishop then Some ''B''
      else if t = Queen then Some ''Q''
      else if t = King then Some ''K''
      else if t = PawnEnPassant then Some ''P''
      else if t = KingCastle then Some ''K''
      else if t = RookCastle then Some ''R''
      else None)"

text \<open>For a tag outside the table the symbol is undefined: the white branch returns
  it, the black branch calls \<open>toLowerCase\<close> on it and throws a TypeError.\<close>

definition getPieceSymbol :: "PieceType \<Rightarrow> Color \<Rightarrow> error + string option" where
  "getPieceSymbol t c =
     (let symbol = symbols t
      in if c = White then Inr symbol
         else (case symbol of None \<Rightarrow> Inl TypeError | Some s \<Rightarrow> Inr (Some (toLowerCase s))))"

definition getPieceAt :: "ChessBoard \<Rightarrow> Position \<Rightarrow> error + Piece option" where
  "getPieceAt b position =
     (let coord = positionToCoordinates position;
          index = coordinatesToIndex coord;
          whiteOccupied = isOccupiedBy b position White;
          blackOccupied = isOccupiedBy b position Black;
          bitPos = calculateBitLength index
      in if whiteOccupied then
           (let t = nat (and (shiftRight (whitePieces b) bitPos) maxBinary)
            in andThen (getPieceSymbol t White) (\<lambda>s.
                 Inr (Some \<lparr> pieceColor = White, pieceType = t, piecePosition = position,
                             pieceSymbol = s \<rparr>)))
         else if blackOccupied then
           (let t = nat (and (shiftRight (blackPieces b) bitPos) maxBinary)
            in andThen (getPieceSymbol t Black) (\<lambda>s.
                 Inr (Some \<lparr> pieceColor = Black, pieceType = t, piecePosition = position,
                             pieceSymbol = s \<rparr>)))
         else Inr None)"

definition isEmpty :: "ChessBoard \<Rightarrow> Position \<Rightarrow> error + bool" where
  "isEmpty b position = andThen (getPieceAt b position) (\<lambda>piece. Inr (piece = None))"

definition isEnemy :: "ChessBoard \<Rightarrow> Position \<Rightarrow> Color \<Rightarrow> error + bool" where
  "isEnemy b position c =
     andThen (getPieceAt b position) (\<lambda>piece.
       Inr (case piece of None \<Rightarrow> False | Some p \<Rightarrow> pieceColor p \<noteq> c))"

section \<open>Move generation\<close>

text \<open>\<open>isEnemy(pos, color) && getPieceAt(pos)?.type === PawnEnPassant\<close>, the test of
  the en-passant branch of \<open>getPawnMoves\<close>.\<close>

definition isEnPassantPawn :: "ChessBoard \<Rightarrow> Position \<Rightarrow> Color \<Rightarrow> error + bool" where
  "isEnPassantPawn b pos color =
     andThen (isEnemy b pos color) (\<lambda>enemy.
       if enemy then
         andThen (getPieceAt b pos) (\<lambda>piece.
           Inr (case piece of None \<Rightarrow> False | Some p \<Rightarrow> pieceType p = PawnEnPassant))
       else Inr False)"

definition getPawnMoves :: "ChessBoard \<Rightarrow> Position \<Rightarrow> Color \<Rightarrow> error + Position list" where
  "getPawnMoves b position color =
     (let coord = positionToCoordinates position;
          row = row coord; col = col coord;
          direction = (if color = White then 1 else - 1);
          startRow = (if color = White then 1 else 6);
          pos1 = coordinatesToPosition \<lparr> row = numPlus row direction, col = col \<rparr>;
          pos2 = coordinatesToPosition \<lparr> row = numPlus row (2 * direction), col = col \<rparr>;
          captureLeft = coordinatesToPosition \<lparr> row = numPlus row direction, col = col - 1 \<rparr>;
          captureRight = coordinatesToPosition \<lparr> row = numPlus row direction, col = col + 1 \<rparr>;
          enPassantRow = (if color = White then 4 else 3);
          leftPos = coordinatesToPosition \<lparr> row = row, col = col - 1 \<rparr>;
          rightPos = coordinatesToPosition \<lparr> row = row, col = col + 1 \<rparr>
      in
        andThen (isEmpty b pos1) (\<lambda>empty1.
        andThen (if empty1 then
                   (if numEquals row startRow then
                      andThen (isEmpty b pos2) (\<lambda>empty2.
                        Inr (if empty2 then [pos1, pos2] else [pos1]))
                    else Inr [pos1])
                 else Inr []) (\<lambda>forward.
        andThen (isEnemy b captureLeft color) (\<lambda>enemyLeft.
        andThen (isEnemy b captureRight color) (\<lambda>enemyRight.
        andThen (if numEquals row enPassantRow then
                   andThen (isEnPassantPawn b leftPos color) (\<lambda>left.
                   andThen (isEnPassantPawn b rightPos color) (\<lambda>right.
                     Inr ((if left then [captureLeft] else []) @
                          (if right then [captureRight] else []))))
                 else Inr []) (\<lambda>enPassant.
          Inr (forward @ (if enemyLeft then [captureLeft] else []) @
               (if enemyRight then [captureRight] else []) @ enPassant)))))))"

text \<open>
  One sliding loop of the rook and the bishop: the squares of the ray in the order the
  loop visits them; an empty square is pushed and the loop goes on, an occupied one ends
  it (\<open>break\<close>), pushed when it holds an enemy.
\<close>

fun slide :: "ChessBoard \<Rightarrow> Color \<Rightarrow> Position list \<Rightarrow> error + Position list" where
  "slide b color [] = Inr []"
| "slide b color (pos # ray) =
     andThen (isEmpty b pos) (\<lambda>empty.
       if empty then andThen (slide b color ray) (\<lambda>moves. Inr (pos # moves))
       else andThen (isEnemy b pos color) (\<lambda>enemy. Inr (if enemy then [pos] else [])))"

text \<open>
  The four loops of \<open>getRookMoves\<close>: \<open>i\<close> from \<open>col + 1\<close> while \<open>i < 8\<close>, from
  \<open>col - 1\<close> down while \<open>i >= 0\<close>, and the same for the row. With a \<open>NaN\<close> row the
  two row loops do not run (their guards are false).
\<close>

definition getRookMoves :: "ChessBoard \<Rightarrow> Position \<Rightarrow> Color \<Rightarrow> error + Position list" where
  "getRookMoves b position color =
     (let coord = positionToCoordinates position;
          row = row coord; col = col coord;
          right = map (\<lambda>i. coordinatesToPosition \<lparr> row = row, col = i \<rparr>) [col + 1..7];
          left = map (\<lambda>i. coordinatesToPosition \<lparr> row = row, col = i \<rparr>) (rev [0..col - 1]);
          up = (case row of NaN \<Rightarrow> []
                | Num r \<Rightarrow> map (\<lambda>i. coordinatesToPosition \<lparr> row = Num i, col = col \<rparr>) [r + 1..7]);
          down = (case row of NaN \<Rightarrow> []
                  | Num r \<Rightarrow> map (\<lambda>i. coordinatesToPosition \<lparr> row = Num i, col = col \<rparr>)
                               (rev [0..r - 1]))
      in
        andThen (slide b color right) (\<lambda>moves1.
        andThen (slide b color left) (\<lambda>moves2.
        andThen (slide b color up) (\<lambda>moves3.
        andThen (slide b color down) (\<lambda>moves4.
          Inr (moves1 @ moves2 @ moves3 @ moves4))))))"

text \<open>The loop of \<open>getKnightMoves\<close> over the candidate squares.\<close>

fun knightLoop :: "ChessBoard \<Rightarrow> Color \<Rightarrow> Coord list \<Rightarrow> error + Position list" where
  "knightLoop b color [] = Inr []"
| "knightLoop b color (move # rest) =
     (if numAtLeast (row move) 0 \<and> numLess (row move) 8 \<and> 0 \<le> col move \<and> col move < 8
      then
        (let pos = coordinatesToPosition move
         in andThen (isEmpty b pos) (\<lambda>empty.
            andThen (if empty then Inr True else isEnemy b pos color) (\<lambda>free.
            andThen (knightLoop b color rest) (\<lambda>moves.
              Inr (if free then pos # moves else moves)))))
      else knightLoop b color rest)"

definition getKnightMoves :: "ChessBoard \<Rightarrow> Position \<Rightarrow> Color \<Rightarrow> error + Position list" where
  "getKnightMoves b position color =
     (let coord = positionToCoordinates position;
          row = row coord; col = col coord;
          knightMoves =
            [ \<lparr> row = numPlus row 2, col = col + 1 \<rparr>,
              \<lparr> row = numPlus row 2, col = col - 1 \<rparr>,
              \<lparr> row = numPlus row (- 2), col = col + 1 \<rparr>,
              \<lparr> row = numPlus row (- 2), col = col - 1 \<rparr>,
              \<lparr> row = numPlus row 1, col = col + 2 \<rparr>,
              \<lparr> row = numPlus row 1, col = col - 2 \<rparr>,
              \<lparr> row = numPlus row (- 1), col = col + 2 \<rparr>,
              \<lparr> row = numPlus row (- 1), col = col - 2 \<rparr> ]
      in knightLoop b color knightMoves)"

text \<open>
  The four loops of \<open>getBishopMoves\<close> run \<open>i\<close> from 1 while both coordinates stay on
  the board on the side they move to: \<open>row + i < 8 && col + i < 8\<close> holds exactly for
  \<open>i\<close> up to \<open>min (7 - row) (7 - col)\<close>, \<open>row - i >= 0\<close> for \<open>i\<close> up to \<open>row\<close>.
\<close>

definition getBishopMoves :: "ChessBoard \<Rightarrow> Position \<Rightarrow> Color \<Rightarrow> error + Position list" where
  "getBishopMoves b position color =
     (let coord = positionToCoordinates position;
          col = col coord
      in case row coord of
           NaN \<Rightarrow> Inr []
         | Num r \<Rightarrow>
            (let upRight = map (\<lambda>i. coordinatesToPosition \<lparr> row = Num (r + i), col = col + i \<rparr>)
                             [1..min (7 - r) (7 - col)];
                 upLeft = map (\<lambda>i. coordinatesToPosition \<lparr> row = Num (r + i), col = col - i \<rparr>)
                             [1..min (7 - r) col];
                 downRight = map (\<lambda>i. coordinatesToPosition \<lparr> row = Num (r - i), col = col + i \<rparr>)
                             [1..min r (7 - col)];
                 downLeft = map (\<lambda>i. coordinatesToPosition \<lparr> row = Num (r - i), col = col - i \<rparr>)
                             [1..min r col]
             in
               andThen (slide b color upRight) (\<lambda>moves1.
               andThen (slide b color upLeft) (\<lambda>moves2.
               andThen (slide b color downRight) (\<lambda>moves3.
               andThen (slide b color downLeft) (\<lambda>moves4.
                 Inr (moves1 @ moves2 @ moves3 @ moves4)))))))"

definition getQueenMoves :: "ChessBoard \<Rightarrow> Position \<Rightarrow> Color \<Rightarrow> error + Position list" where
  "getQueenMoves b position color =
     andThen (getRookMoves b position color) (\<lambda>rookMoves.
     andThen (getBishopMoves b position color) (\<lambda>bishopMoves.
       Inr (rookMoves @ bishopMoves)))"

section \<open>Check detection and legal moves\<close>

text \<open>
  \<open>getKingMoves\<close> and \<open>getLegalMoves\<close> call \<open>isKingInCheck\<close>, which calls
  \<open>getLegalMoves\<close> again. The two are first given for any check function
  (\<open>getKingMovesWith\<close>, \<open>getLegalMovesWith\<close>); \<open>isKingInCheck\<close> then recurses on
  the fuel and passes itself, with one unit of fuel less, as that function.
  \<open>kingLoop\<close> is the loop of \<open>getKingMoves\<close> over the candidate squares.
\<close>

fun kingLoop ::
  "(Position \<Rightarrow> Color \<Rightarrow> (error + bool) option) \<Rightarrow>
   ChessBoard \<Rightarrow> Color \<Rightarrow> Coord list \<Rightarrow> (error + Position list) option" where
  "kingLoop check b color [] = Some (Inr [])"
| "kingLoop check b color (move # rest) =
     (if numAtLeast (row move) 0 \<and> numLess (row move) 8 \<and> 0 \<le> col move \<and> col move < 8
      then
        (let pos = coordinatesToPosition move
         in andThenF (Some (isEmpty b pos)) (\<lambda>empty.
            andThenF (Some (if empty then Inr True else isEnemy b pos color)) (\<lambda>free.
            andThenF (if free then
                        andThenF (check pos color) (\<lambda>inCheck. Some (Inr (\<not> inCheck)))
                      else Some (Inr False)) (\<lambda>ok.
            andThenF (kingLoop check b color rest) (\<lambda>moves.
              Some (Inr (if ok then pos # moves else moves)))))))
      else kingLoop check b color rest)"

definition getKingMovesWith ::
  "(Position \<Rightarrow> Color \<Rightarrow> (error + bool) option) \<Rightarrow>
   ChessBoard \<Rightarrow> Position \<Rightarrow> Color \<Rightarrow> (error + Position list) option" where
  "getKingMovesWith check b position color =
     (let coord = positionToCoordinates position;
          row = row coord; col = col coord;
          kingMoves =
            [ \<lparr> row = numPlus row 1, col = col \<rparr>,
              \<lparr> row = numPlus row (- 1), col = col \<rparr>,
              \<lparr> row = row, col = col + 1 \<rparr>,
              \<lparr> row = row, col = col - 1 \<rparr>,
              \<lparr> row = numPlus row 1, col = col + 1 \<rparr>,
              \<lparr> row = numPlus row 1, col = col - 1 \<rparr>,
              \<lparr> row = numPlus row (- 1), col = col + 1 \<rparr>,
              \<lparr> row = numPlus row (- 1), col = col - 1 \<rparr> ]
      in kingLoop check b color kingMoves)"

text \<open>\<open>getLegalMoves\<close> also computes \<open>pieceType\<close> and \<open>color\<close> from the bit fields;
  both are unused and cannot throw, and are left out.\<close>

definition getLegalMovesWith ::
  "(Position \<Rightarrow> Color \<Rightarrow> (error + bool) option) \<Rightarrow>
   ChessBoard \<Rightarrow> Position \<Rightarrow> (error + Position list) option" where
  "getLegalMovesWith check b position =
     (let whiteOccupied = isOccupiedBy b position White;
          blackOccupied = isOccupiedBy b position Black
      in if \<not> whiteOccupied \<and> \<not> blackOccupied then Some (Inr [])
         else
           andThenF (Some (getPieceAt b position)) (\<lambda>piece.
             case piece of
               None \<Rightarrow> Some (Inr [])
             | Some p \<Rightarrow>
                (let t = pieceType p in
                 if t = Pawn \<or> t = PawnEnPassant then Some (getPawnMoves b position (pieceColor p))
                 else if t = Rook \<or> t = RookCastle then Some (getRookMoves b position (pieceColor p))
                 else if t = Knight then Some (getKnightMoves b position (pieceColor p))
                 else if t = Bishop then Some (getBishopMoves b position (pieceColor p))
                 else if t = Queen then Some (getQueenMoves b position (pieceColor p))
                 else if t = King \<or> t = KingCastle then
                   getKingMovesWith check b position (pieceColor p)
                 else Some (Inr []))))"

text \<open>The 64 squares in the order of the loops \<open>row = 0..7\<close>, \<open>col = 0..7\<close>.\<close>

definition allSquares :: "Position list" where
  "allSquares =
     concat (map (\<lambda>r. map (\<lambda>c. coordinatesToPosition \<lparr> row = Num r, col = c \<rparr>) [0..7]) [0..7])"

text \<open>The double loop of \<open>isKingInCheck\<close> over the squares still to visit.\<close>

fun checkLoop ::
  "(Position \<Rightarrow> (error + Position list) option) \<Rightarrow>
   ChessBoard \<Rightarrow> Position \<Rightarrow> Color \<Rightarrow> Position list \<Rightarrow> (error + bool) option" where
  "checkLoop legal b kingPosition opponentColor [] = Some (Inr False)"
| "checkLoop legal b kingPosition opponentColor (pos # squares) =
     (if isOccupiedBy b pos opponentColor then
        andThenF (legal pos) (\<lambda>legalMoves.
          if kingPosition \<in> set legalMoves then Some (Inr True)
          else checkLoop legal b kingPosition opponentColor squares)
      else checkLoop legal b kingPosition opponentColor squares)"

primrec isKingInCheck ::
  "nat \<Rightarrow> ChessBoard \<Rightarrow> Position \<Rightarrow> Color \<Rightarrow> (error + bool) option" where
  "isKingInCheck 0 b kingPosition color = None"
| "isKingInCheck (Suc n) b kingPosition color =
     checkLoop (getLegalMovesWith (isKingInCheck n b) b) b kingPosition (opponent color)
       allSquares"


definition getLegalMoves ::
  "nat \<Rightarrow> ChessBoard \<Rightarrow> Position \<Rightarrow> (error + Position list) option" where
  "getLegalMoves n b position = getLegalMovesWith (isKingInCheck n b) b position"

text \<open>The search of \<open>isColorInCheck\<close> for the first square that holds the king.\<close>

fun findKing :: "ChessBoard \<Rightarrow> Color \<Rightarrow> Position list \<Rightarrow> error + Position option" where
  "findKing b color [] = Inr None"
| "findKing b color (pos # squares) =
     andThen (getPieceAt b pos) (\<lambda>piece.
       if (case piece of None \<Rightarrow> False
           | Some p \<Rightarrow> pieceType p = King \<and> pieceColor p = color)
       then Inr (Some pos)
       else findKing b color squares)"

definition isColorInCheck :: "nat \<Rightarrow> ChessBoard \<Rightarrow> Color \<Rightarrow> (error + bool) option" where
  "isColorInCheck n b color =
     andThenF (Some (findKing b color allSquares)) (\<lambda>kingPosition.
       case kingPosition of
         None \<Rightarrow> Some (Inr False)
       | Some k \<Rightarrow> isKingInCheck n b k color)"

definition isCheckmate ::
  "nat \<Rightarrow> ChessBoard \<Rightarrow> Position \<Rightarrow> Color \<Rightarrow> (error + bool) option" where
  "isCheckmate n b kingPosition color =
     andThenF (isKingInCheck n b kingPosition color) (\<lambda>inCheck.
       if \<not> inCheck then Some (Inr False)
       else andThenF (getLegalMoves n b kingPosition) (\<lambda>legalMoves.
              Some (Inr (length legalMoves = 0))))"

section \<open>Castling\<close>

datatype CastleSide = KingSide | QueenSide

text \<open>The loop over the squares between king and rook: false at the first that is not
  empty.\<close>

fun allEmpty :: "ChessBoard \<Rightarrow> Position list \<Rightarrow> error + bool" where
  "allEmpty b [] = Inr True"
| "allEmpty b (pos # squares) =
     andThen (isEmpty b pos) (\<lambda>empty. if empty then allEmpty b squares else Inr False)"

definition canCastle :: "nat \<Rightarrow> ChessBoard \<Rightarrow> Color \<Rightarrow> CastleSide \<Rightarrow> (error + bool) option" where
  "canCastle n b color side =
     (let row = (if color = White then 0 else 7);
          kingPos = coordinatesToPosition \<lparr> row = Num row, col = 4 \<rparr>;
          rookPos = (if side = KingSide then coordinatesToPosition \<lparr> row = Num row, col = 7 \<rparr>
                     else coordinatesToPosition \<lparr> row = Num row, col = 0 \<rparr>);
          between = map (\<lambda>i. coordinatesToPosition \<lparr> row = Num row, col = i \<rparr>)
                      (if side = KingSide then [5..6] else [1..3]);
          newKingPos = (if side = KingSide then coordinatesToPosition \<lparr> row = Num row, col = 6 \<rparr>
                        else coordinatesToPosition \<lparr> row = Num row, col = 2 \<rparr>)
      in
        andThenF (Some (getPieceAt b kingPos)) (\<lambda>kingPiece.
        andThenF (Some (getPieceAt b rookPos)) (\<lambda>rookPiece.
          case (kingPiece, rookPiece) of
            (Some k, Some r) \<Rightarrow>
              if pieceType k \<noteq> King \<or> pieceType r \<noteq> Rook then Some (Inr False)
              else
                andThenF (Some (allEmpty b between)) (\<lambda>empty.
                  if \<not> empty then Some (Inr False)
                  else
                    andThenF (isKingInCheck n b kingPos color) (\<lambda>inCheck.
                      if inCheck then Some (Inr False)
                      else
                        andThenF (isKingInCheck n b newKingPos color) (\<lambda>attacked.
                          Some (Inr (\<not> attacked)))))
          | _ \<Rightarrow> Some (Inr False))))"

section \<open>Mutation of the board\<close>

text \<open>
  A method that changes the board returns what it returned or threw together with the
  board it leaves behind.
\<close>

definition capturePiece :: "ChessBoard \<Rightarrow> Position \<Rightarrow> (error + bool) \<times> ChessBoard" where
  "capturePiece b position =
     (let coord = positionToCoordinates position;
          index = coordinatesToIndex coord
      in if isOccupiedBy b position White then
           (case toBigInt index of
              Inl e \<Rightarrow> (Inl e, b)
            | Inr i \<Rightarrow> (Inr True, b\<lparr> whitePieces := removePiece (whitePieces b) i \<rparr>))
         else if isOccupiedBy b position Black then
           (case toBigInt index of
              Inl e \<Rightarrow> (Inl e, b)
            | Inr i \<Rightarrow> (Inr True, b\<lparr> blackPieces := removePiece (blackPieces b) i \<rparr>))
         else (Inr False, b))"

text \<open>The three blocks of \<open>movePiece\<close> after the piece is found: the en-passant
  capture, the relocation of the piece in the bit field of its colour, and the update
  of the en-passant flags.\<close>

definition enPassantCapture ::
  "ChessBoard \<Rightarrow> Piece \<Rightarrow> Coord \<Rightarrow> Coord \<Rightarrow> Position \<Rightarrow> (error + unit) \<times> ChessBoard" where
  "enPassantCapture b piece fromCoords toCoords to =
     (if pieceType piece = Pawn \<and> absDiffEquals (row fromCoords) (row toCoords) 1 \<and>
         \<bar>col fromCoords - col toCoords\<bar> = 1
      then
        (case isEmpty b to of
           Inl e \<Rightarrow> (Inl e, b)
         | Inr emptyTo \<Rightarrow>
            if emptyTo then
              (let enPassantPos =
                     coordinatesToPosition \<lparr> row = row fromCoords, col = col toCoords \<rparr>
               in if isOccupiedBy b enPassantPos (opponent (pieceColor piece)) then
                    (case capturePiece b enPassantPos of
                       (Inl e, b1) \<Rightarrow> (Inl e, b1)
                     | (Inr captured, b1) \<Rightarrow> (Inr (), b1))
                  else (Inr (), b))
            else (Inr (), b))
      else (Inr (), b))"

definition relocate ::
  "ChessBoard \<Rightarrow> bool \<Rightarrow> bool \<Rightarrow> number \<Rightarrow> number \<Rightarrow> PieceType \<Rightarrow> (error + unit) \<times> ChessBoard" where
  "relocate b whiteOccupied blackOccupied fromIndex toIndex t =
     (if whiteOccupied then
        (case toBigInt fromIndex of
           Inl e \<Rightarrow> (Inl e, b)
         | Inr fi \<Rightarrow>
            (let b1 = b\<lparr> whitePieces := removePiece (whitePieces b) fi \<rparr>
             in case toBigInt toIndex of
                  Inl e \<Rightarrow> (Inl e, b1)
                | Inr ti \<Rightarrow> (Inr (), b1\<lparr> whitePieces := setPiece (whitePieces b1) ti t \<rparr>)))
      else if blackOccupied then
        (case toBigInt fromIndex of
           Inl e \<Rightarrow> (Inl e, b)
         | Inr fi \<Rightarrow>
            (let b1 = b\<lparr> blackPieces := removePiece (blackPieces b) fi \<rparr>
             in case toBigInt toIndex of
                  Inl e \<Rightarrow> (Inl e, b1)
                | Inr ti \<Rightarrow> (Inr (), b1\<lparr> blackPieces := setPiece (blackPieces b1) ti t \<rparr>)))
      else (Inr (), b))"

definition updateEnPassantFlags ::
  "ChessBoard \<Rightarrow> Piece \<Rightarrow> Coord \<Rightarrow> Coord \<Rightarrow> number \<Rightarrow> (error + unit) \<times> ChessBoard" where
  "updateEnPassantFlags b piece fromCoords toCoords toIndex =
     (if pieceType piece = Pawn then
        (if pieceColor piece = White then
           (let b1 = b\<lparr> pawnsEnPassantWhite := 0 \<rparr>
            in if numEquals (row fromCoords) 1 \<and> numEquals (row toCoords) 3 then
                 (case toBigInt toIndex of
                    Inl e \<Rightarrow> (Inl e, b1)
                  | Inr ti \<Rightarrow>
                     (Inr (), b1\<lparr> pawnsEnPassantWhite :=
                                     setPiece (pawnsEnPassantWhite b1) ti PawnEnPassant \<rparr>))
               else (Inr (), b1))
         else
           (let b1 = b\<lparr> pawnsEnPassantBlack := 0 \<rparr>
            in if numEquals (row fromCoords) 6 \<and> numEquals (row toCoords) 4 then
                 (case toBigInt toIndex of
                    Inl e \<Rightarrow> (Inl e, b1)
                  | Inr ti \<Rightarrow>
                     (Inr (), b1\<lparr> pawnsEnPassantBlack :=
                                     setPiece (pawnsEnPassantBlack b1) ti PawnEnPassant \<rparr>))
               else (Inr (), b1)))
      else (Inr (), b))"

definition movePiece :: "ChessBoard \<Rightarrow> Position \<Rightarrow> Position \<Rightarrow> (error + bool) \<times> ChessBoard" where
  "movePiece b from to =
     (let fromCoords = positionToCoordinates from;
          toCoords = positionToCoordinates to;
          fromIndex = numPlus (numTimes (row fromCoords) 8) (col fromCoords);
          toIndex = numPlus (numTimes (row toCoords) 8) (col toCoords);
          whiteOccupied = isOccupiedBy b from White;
          blackOccupied = isOccupiedBy b from Black
      in case getPieceAt b from of
           Inl e \<Rightarrow> (Inl e, b)
         | Inr None \<Rightarrow> (Inr False, b)
         | Inr (Some piece) \<Rightarrow>
            (case enPassantCapture b piece fromCoords toCoords to of
               (Inl e, b1) \<Rightarrow> (Inl e, b1)
             | (Inr u1, b1) \<Rightarrow>
                (case relocate b1 whiteOccupied blackOccupied fromIndex toIndex (pieceType piece) of
                   (Inl e, b2) \<Rightarrow> (Inl e, b2)
                 | (Inr u2, b2) \<Rightarrow>
                    (case updateEnPassantFlags b2 piece fromCoords toCoords toIndex of
                       (Inl e, b3) \<Rightarrow> (Inl e, b3)
                     | (Inr u3, b3) \<Rightarrow> (Inr True, b3)))))"

text \<open>\<open>getDistribution\<close>: the symbol of every square, \<open>'.'\<close> for an empty one; the
  symbol of a white piece with an unknown tag is undefined.\<close>

fun distribution :: "ChessBoard \<Rightarrow> Position list \<Rightarrow> error + string option list" where
  "distribution b [] = Inr []"
| "distribution b (pos # squares) =
     andThen (getPieceAt b pos) (\<lambda>piece.
     andThen (distribution b squares) (\<lambda>dist.
       Inr ((case piece of None \<Rightarrow> Some ''.'' | Some p \<Rightarrow> pieceSymbol p) # dist)))"

definition getDistribution :: "ChessBoard \<Rightarrow> error + string option list" where
  "getDistribution b = distribution b allSquares"

section \<open>The game\<close>

text \<open>
  A \<open>ChessPlayer\<close> is its side and its user (id and name). Of a \<open>ChessGame\<close> the
  fields that \<open>addPlayer\<close>, \<open>start\<close> and \<open>move\<close> read or write are kept; the room and
  what is sent to it are outside the model, except that rendering the board for a player
  reads every square and so can throw.
\<close>

record User =
  userid :: string
  username :: string

record ChessPlayer =
  side :: Color
  user :: User

record ChessGame =
  turn :: string
  sides :: "Color \<Rightarrow> ChessPlayer option"
  playerTable :: "string \<Rightarrow> ChessPlayer option"
  history :: "string list"
  board :: ChessBoard
  players :: "ChessPlayer list"
  state :: GameState

definition colorName :: "Color \<Rightarrow> string" where
  "colorName c = (if c = White then ''white'' else ''black'')"

definition oppositeSide :: "ChessPlayer \<Rightarrow> Color" where
  "oppositeSide p = (if side p = White then Black else White)"

text \<open>The constructor of \<open>ChessGame\<close>.\<close>

definition newChessGame :: ChessGame where
  "newChessGame =
     \<lparr> turn = [], sides = Map.empty, playerTable = Map.empty, history = [],
       board = newChessBoard, players = [], state = Prepared \<rparr>"

definition addPlayer :: "ChessGame \<Rightarrow> User \<Rightarrow> ChessPlayer option \<times> ChessGame" where
  "addPlayer g u =
     (if length (players g) = 2 then (None, g)
      else
        (let player0 = \<lparr> side = White, user = u \<rparr>;
             player = (if length (players g) = 1
                       then player0\<lparr> side := oppositeSide (players g ! 0) \<rparr>
                       else player0)
         in (Some player,
             g\<lparr> players := players g @ [player],
                playerTable := (playerTable g)(userid u \<mapsto> player),
                sides := (sides g)(side player \<mapsto> player) \<rparr>)))"

text \<open>\<open>start\<close>: the last statement reads \<open>playerTable[turn].name\<close> and throws when
  no player has the id in \<open>turn\<close>.\<close>

definition start :: "ChessGame \<Rightarrow> error option \<times> ChessGame" where
  "start g =
     (let g1 = g\<lparr> state := Active \<rparr>;
          g2 = (case sides g1 White of
                  None \<Rightarrow> g1
                | Some player \<Rightarrow> g1\<lparr> turn := userid (user player) \<rparr>)
      in case playerTable g2 (turn g2) of
           None \<Rightarrow> (Some TypeError, g2)
         | Some player \<Rightarrow> (None, g2))"

text \<open>The static \<open>ChessGame.start(user, targetUser)\<close>.\<close>

definition startGame :: "User \<Rightarrow> User \<Rightarrow> error option \<times> ChessGame" where
  "startGame u targetUser =
     (let chess = newChessGame;
          chess1 = snd (addPlayer chess u);
          chess2 = snd (addPlayer chess1 targetUser)
      in start chess2)"

definition sendBoard :: "ChessGame \<Rightarrow> error + unit" where
  "sendBoard g =
     (if players g = [] then Inr ()
      else andThen (getDistribution (board g)) (\<lambda>dist. Inr ()))"

text \<open>
  \<open>move\<close> returns \<open>None\<close> when the legal-move computation does not return within the
  fuel, and otherwise the error it threw (if any) with the game it leaves behind.
\<close>

definition move ::
  "nat \<Rightarrow> ChessGame \<Rightarrow> ChessPlayer \<Rightarrow> Position \<Rightarrow> Position \<Rightarrow> (error option \<times> ChessGame) option" where
  "move n g player from to =
     (let fromCoord = positionToCoordinates from;
          toCoord = positionToCoordinates to;
          fromPos = coordinatesToPosition fromCoord;
          toPos = coordinatesToPosition toCoord
      in case getLegalMoves n (board g) fromPos of
           None \<Rightarrow> None
         | Some (Inl e) \<Rightarrow> Some (Some e, g)
         | Some (Inr legalMoves) \<Rightarrow>
            if toPos \<notin> set legalMoves then Some (Some InvalidMove, g)
            else
              (case getPieceAt (board g) fromPos of
                 Inl e \<Rightarrow> Some (Some e, g)
               | Inr fromPiece \<Rightarrow>
                  (case getPieceAt (board g) toPos of
                     Inl e \<Rightarrow> Some (Some e, g)
                   | Inr toPiece \<Rightarrow>
                      (case fromPiece of
                         None \<Rightarrow> Some (Some NoPieceAt, g)
                       | Some fp \<Rightarrow>
                          if pieceColor fp \<noteq> side player then Some (Some NotYourTurn, g)
                          else if (case toPiece of None \<Rightarrow> False
                                   | Some tp \<Rightarrow> pieceColor tp = side player)
                          then Some (Some CannotCaptureOwnPiece, g)
                          else
                            (case movePiece (board g) fromPos toPos of
                               (Inl e, b1) \<Rightarrow> Some (Some e, g\<lparr> board := b1 \<rparr>)
                             | (Inr False, b1) \<Rightarrow> Some (None, g\<lparr> board := b1 \<rparr>)
                             | (Inr True, b1) \<Rightarrow>
                                (let g1 = g\<lparr> board := b1,
                                             history := history g @ [from @ '' '' @ to] \<rparr>
                                 in case sendBoard g1 of
                                      Inl e \<Rightarrow> Some (Some e, g1)
                                    | Inr u \<Rightarrow>
                                       (case sides g1 (oppositeSide player) of
                                          None \<Rightarrow> Some (Some TypeError, g1)
                                        | Some other \<Rightarrow>
                                           Some (None, g1\<lparr> turn := colorName (side other) \<rparr>))))))))"

section \<open>Scenarios\<close>

text \<open>
  Two users, the game that \<open>ChessGame.start\<close> sets up for them (the first is white),
  and \<open>play\<close>: a list of moves submitted one after the other, each of which must be
  accepted (\<open>move\<close> returns without throwing).
\<close>

definition alice :: User where
  "alice = \<lparr> userid = ''alice'', username = ''Alice'' \<rparr>"

definition bob :: User where
  "bob = \<lparr> userid = ''bob'', username = ''Bob'' \<rparr>"

definition whitePlayer :: ChessPlayer where
  "whitePlayer = \<lparr> side = White, user = alice \<rparr>"

definition blackPlayer :: ChessPlayer where
  "blackPlayer = \<lparr> side = Black, user = bob \<rparr>"

definition startedGame :: ChessGame where
  "startedGame = snd (startGame alice bob)"

fun play ::
  "nat \<Rightarrow> ChessGame \<Rightarrow> (ChessPlayer \<times> Position \<times> Position) list \<Rightarrow> ChessGame option" where
  "play n g [] = Some g"
| "play n g ((p, f, t) # ms) =
     (case move n g p f t of Some (None, g1) \<Rightarrow> play n g1 ms | _ \<Rightarrow> None)"

text \<open>The move sequences of the scenarios.\<close>

definition foolsMate :: "(ChessPlayer \<times> Position \<times> Position) list" where
  "foolsMate =
     [(whitePlayer, ''f2'', ''f3''), (blackPlayer, ''e7'', ''e5''),
      (whitePlayer, ''g2'', ''g4''), (blackPlayer, ''d8'', ''h4'')]"

definition pawnCapture :: "(ChessPlayer \<times> Position \<times> Position) list" where
  "pawnCapture =
     [(whitePlayer, ''e2'', ''e4''), (blackPlayer, ''d7'', ''d5''),
      (whitePlayer, ''e4'', ''d5'')]"

definition enPassantOpening :: "(ChessPlayer \<times> Position \<times> Position) list" where
  "enPassantOpening =
     [(whitePlayer, ''e2'', ''e4''), (blackPlayer, ''a7'', ''a6''),
      (whitePlayer, ''e4'', ''e5''), (blackPlayer, ''d7'', ''d5'')]"


definition castleThroughCheck :: "(ChessPlayer \<times> Position \<times> Position) list" where
  "castleThroughCheck =
     [(whitePlayer, ''g1'', ''f3''), (blackPlayer, ''g8'', ''f6''),
      (whitePlayer, ''g2'', ''g3''), (blackPlayer, ''f6'', ''g4''),
      (whitePlayer, ''f1'', ''g2''), (blackPlayer, ''g4'', ''e3'')]"

definition twoWhiteMoves :: "(ChessPlayer \<times> Position \<times> Position) list" where
  "twoWhiteMoves =
     [(whitePlayer, ''e2'', ''e4''), (whitePlayer, ''d2'', ''d4'')]"

definition kingReturns :: "(ChessPlayer \<times> Position \<times> Position) list" where
  "kingReturns =
     [(whitePlayer, ''g1'', ''f3''), (blackPlayer, ''a7'', ''a6''),
      (whitePlayer, ''g2'', ''g3''), (blackPlayer, ''a6'', ''a5''),
      (whitePlayer, ''f1'', ''g2''), (blackPlayer, ''a5'', ''a4''),
      (whitePlayer, ''e1'', ''f1''), (blackPlayer, ''a4'', ''a3''),
      (whitePlayer, ''f1'', ''e1'')]"

text \<open>Boards made from the initial one by \<open>movePiece\<close>: the board after e2-e4 and
  e7-e5, and the board after e2-e3.\<close>

definition openKingsBoard :: ChessBoard where
  "openKingsBoard = snd (movePiece (snd (movePiece newChessBoard ''e2'' ''e4'')) ''e7'' ''e5'')"


text \<open>A square that cannot make the double loop of \<open>isKingInCheck\<close> return true or
  recurse: the colour has no piece there, or the piece is no king and its moves do not
  include the target square.\<close>

definition harmless :: "ChessBoard \<Rightarrow> Color \<Rightarrow> Position \<Rightarrow> Position \<Rightarrow> bool" where
  "harmless b opp kp pos =
     (\<not> isOccupiedBy b pos opp \<or>
      (case getPieceAt b pos of
         Inr (Some p) \<Rightarrow>
           pieceType p \<noteq> King \<and> pieceType p \<noteq> KingCastle \<and>
           (case getLegalMovesWith (\<lambda>q c. None) b pos of
              Some (Inr ms) \<Rightarrow> kp \<notin> set ms
            | _ \<Rightarrow> False)
       | _ \<Rightarrow> False))"

section \<open>More fuel does not change a result\<close>

text \<open>
  A call that returns within some fuel returns the same with any larger fuel, so a result
  computed with a small fuel is the result of the call, and a call that is \<open>None\<close>
  for every fuel never returns.
\<close>

lemma andThenF_mono:
  assumes "andThenF m f = Some r"
    and "\<And>x. m = Some x \<Longrightarrow> m' = Some x"
    and "\<And>x y. f x = Some y \<Longrightarrow> f' x = Some y"
  shows "andThenF m' f' = Some r"
  using assms by (cases m) (auto simp: andThenF_def split: sum.splits)

lemma kingLoop_mono:
  assumes le: "\<And>pos c r. check pos c = Some r \<Longrightarrow> check' pos c = Some r"
  shows "kingLoop check b color mvs = Some r \<Longrightarrow> kingLoop check' b color mvs = Some r"
proof (induction mvs arbitrary: r)
  case Nil
  then show ?case by simp
next
  case (Cons mv mvs)
  show ?case
  proof (cases "numAtLeast (row mv) 0 \<and> numLess (row mv) 8 \<and> 0 \<le> col mv \<and> col mv < 8")
    case False
    from Cons.prems False have "kingLoop check b color mvs = Some r"
      by (simp only: kingLoop.simps if_False)
    then have "kingLoop check' b color mvs = Some r" by (rule Cons.IH)
    with False show ?thesis by (simp only: kingLoop.simps if_False)
  next
    case True
    from Cons.prems True show ?thesis
      apply (simp only: kingLoop.simps if_True Let_def simp_thms)
      apply (erule andThenF_mono, assumption)
      apply (erule andThenF_mono, assumption)
      apply (erule andThenF_mono)
       apply (simp split: if_splits)
       apply (erule andThenF_mono)
        apply (erule le)
       apply assumption
      apply (erule andThenF_mono)
       apply (erule Cons.IH)
      apply assumption
      done
  qed
qed


lemma getLegalMovesWith_mono:
  assumes le: "\<And>pos c r. check pos c = Some r \<Longrightarrow> check' pos c = Some r"
    and res: "getLegalMovesWith check b position = Some r"
  shows "getLegalMovesWith check' b position = Some r"
proof (cases "\<not> isOccupiedBy b position White \<and> \<not> isOccupiedBy b position Black")
  case True
  with res show ?thesis by (simp add: getLegalMovesWith_def)
next
  case occ: False
  show ?thesis
  proof (cases "getPieceAt b position")
    case (Inl e)
    with res occ show ?thesis by (auto simp: getLegalMovesWith_def andThenF_def)
  next
    case (Inr piece)
    show ?thesis
    proof (cases piece)
      case None
      with res occ Inr show ?thesis by (auto simp: getLegalMovesWith_def andThenF_def)
    next
      case (Some p)
      show ?thesis
      proof (cases "pieceType p = King \<or> pieceType p = KingCastle")
        case False
        with res occ Inr Some show ?thesis
          by (auto simp: getLegalMovesWith_def andThenF_def Let_def)
      next
        case True
        with res occ Inr Some
        have "getKingMovesWith check b position (pieceColor p) = Some r"
          by (auto simp: getLegalMovesWith_def andThenF_def Let_def PieceType_defs)
        then have "getKingMovesWith check' b position (pieceColor p) = Some r"
          using kingLoop_mono [of check check' b "pieceColor p" _ r, OF le]
          unfolding getKingMovesWith_def Let_def by blast
        with True occ Inr Some show ?thesis
          by (auto simp: getLegalMovesWith_def andThenF_def Let_def PieceType_defs)
      qed
    qed
  qed
qed

lemma checkLoop_mono:
  assumes le: "\<And>pos r. legal pos = Some r \<Longrightarrow> legal' pos = Some r"
  shows "checkLoop legal b kp opp squares = Some r \<Longrightarrow>
         checkLoop legal' b kp opp squares = Some r"
proof (induction squares arbitrary: r)
  case Nil
  then show ?case by simp
next
  case (Cons pos squares)
  show ?case
  proof (cases "isOccupiedBy b pos opp")
    case False
    with Cons show ?thesis by simp
  next
    case True
    from Cons.prems True
    have "andThenF (legal pos) (\<lambda>legalMoves.
            if kp \<in> set legalMoves then Some (Inr True)
            else checkLoop legal b kp opp squares) = Some r"
      by simp
    then have "andThenF (legal' pos) (\<lambda>legalMoves.
            if kp \<in> set legalMoves then Some (Inr True)
            else checkLoop legal' b kp opp squares) = Some r"
      by (rule andThenF_mono) (auto dest: le intro: Cons.IH split: if_splits)
    with True show ?thesis by simp
  qed
qed

lemma isKingInCheck_Suc:
  "isKingInCheck n b kp c = Some r \<Longrightarrow> isKingInCheck (Suc n) b kp c = Some r"
proof (induction n arbitrary: kp c r)
  case 0
  then show ?case by simp
next
  case (Suc n)
  have step: "getLegalMovesWith (isKingInCheck (Suc n) b) b pos = Some ms"
    if "getLegalMovesWith (isKingInCheck n b) b pos = Some ms" for pos ms
    using Suc.IH that by (rule getLegalMovesWith_mono)
  from Suc.prems
  have "checkLoop (getLegalMovesWith (isKingInCheck n b) b) b kp (opponent c) allSquares =
        Some r"
    by (simp only: isKingInCheck.simps)
  then have "checkLoop (getLegalMovesWith (isKingInCheck (Suc n) b) b) b kp (opponent c)
               allSquares = Some r"
    using step by (rule checkLoop_mono [rotated])
  then show ?case by (simp only: isKingInCheck.simps)
qed

lemma isKingInCheck_more_fuel:
  "isKingInCheck n b kp c = Some r \<Longrightarrow> n \<le> m \<Longrightarrow> isKingInCheck m b kp c = Some r"
proof (induction m)
  case 0
  then show ?case by simp
next
  case (Suc m)
  show ?case
  proof (cases "n = Suc m")
    case True
    with Suc.prems show ?thesis by simp
  next
    case False
    with Suc.prems have "n \<le> m" by simp
    with Suc have "isKingInCheck m b kp c = Some r" by simp
    then show ?thesis by (rule isKingInCheck_Suc)
  qed
qed

lemma getLegalMoves_more_fuel:
  assumes "getLegalMoves n b position = Some r" and "n \<le> m"
  shows "getLegalMoves m b position = Some r"
proof -
  have "isKingInCheck m b pos c = Some x" if "isKingInCheck n b pos c = Some x" for pos c x
    using that assms(2) by (rule isKingInCheck_more_fuel)
  then show ?thesis
    using assms(1) unfolding getLegalMoves_def by (rule getLegalMovesWith_mono)
qed


section \<open>Positions convert without loss\<close>

lemma digitsOf_small: "n < 10 \<Longrightarrow> digitsOf n = [''0123456789'' ! n]"
  by (subst digitsOf.simps) simp

lemma letter_roundtrip:
  assumes "l \<in> set ''abcdefgh''"
  shows "0 \<le> indexOfChar letters l \<and> indexOfChar letters l < 8 \<and>
         letters ! nat (indexOfChar letters l) = l"
  using assms by (auto simp: letters_def)

lemma digit_roundtrip:
  assumes "d \<in> set ''12345678''"
  shows "numberToString (numPlus (numPlus (parseInt (Some d)) (- 1)) 1) = [d]"
  using assms by (auto simp: digitsOf_small)

lemma validPosition_cases:
  assumes "validPosition s"
  obtains l d where "s = [l, d]" "l \<in> set ''abcdefgh''" "d \<in> set ''12345678''"
proof -
  from assms have len: "length s = 2" and l: "s ! 0 \<in> set ''abcdefgh''"
    and d: "s ! 1 \<in> set ''12345678''"
    by (simp_all add: validPosition_def)
  from len obtain x y where "s = [x, y]"
    by (cases s; cases "tl s") auto
  with l d that show thesis by simp
qed

text \<open>
  Claim C9. For every valid square position string \<open>s\<close> ("a1" .. "h8"), converting it
  to coordinates and back yields \<open>s\<close>:
  \<open>coordinatesToPosition(positionToCoordinates(s)) == s\<close>.
\<close>

theorem position_roundtrip:
  "validPosition s \<Longrightarrow> coordinatesToPosition (positionToCoordinates s) = s"
proof -
  assume "validPosition s"
  then obtain l d where s: "s = [l, d]" and l: "l \<in> set ''abcdefgh''"
    and d: "d \<in> set ''12345678''"
    by (rule validPosition_cases)
  from letter_roundtrip [OF l] digit_roundtrip [OF d] show ?thesis
    by (simp add: s coordinatesToPosition_def positionToCoordinates_def charAt_def)
qed

theorem position_roundtrip_witness:
  "validPosition ''e4'' \<and> coordinatesToPosition (positionToCoordinates ''e4'') = ''e4''"
proof -
  have v: "validPosition ''e4''" by (simp add: validPosition_def)
  from v position_roundtrip [OF v] show ?thesis by simp
qed

section \<open>Moving from an empty square\<close>

lemma isEmpty_True_iff: "isEmpty b position = Inr True \<longleftrightarrow> getPieceAt b position = Inr None"
  by (auto simp: isEmpty_def andThen_def split: sum.splits)

text \<open>
  Claim C10. For every board and every pair of positions, if the source square is empty
  then \<open>movePiece(from, to)\<close> returns false and leaves both the white and the black
  piece bit field unchanged (the whole board is left as it was).
\<close>

theorem movePiece_empty_source:
  "isEmpty b from = Inr True \<Longrightarrow>
   fst (movePiece b from to) = Inr False \<and>
   whitePieces (snd (movePiece b from to)) = whitePieces b \<and>
   blackPieces (snd (movePiece b from to)) = blackPieces b \<and>
   snd (movePiece b from to) = b"
  by (simp add: movePiece_def isEmpty_True_iff)

theorem movePiece_empty_source_witness:
  "isEmpty newChessBoard ''e4'' = Inr True \<and>
   fst (movePiece newChessBoard ''e4'' ''e5'') = Inr False \<and>
   snd (movePiece newChessBoard ''e4'' ''e5'') = newChessBoard"
proof -
  have e: "isEmpty newChessBoard ''e4'' = Inr True" by code_simp
  from e movePiece_empty_source [OF e, of "''e5''"] show ?thesis by simp
qed

section \<open>What a rejected move leaves behind\<close>

text \<open>The run-time errors of the board methods are never one of the four messages of
  \<open>move\<close>.\<close>

lemma getPieceAt_throws: "getPieceAt b position = Inl e \<Longrightarrow> e = TypeError"
  by (auto simp: getPieceAt_def getPieceSymbol_def andThen_def Let_def
           split: if_splits option.splits sum.splits)

lemma isEmpty_throws: "isEmpty b position = Inl e \<Longrightarrow> e = TypeError"
  by (auto simp: isEmpty_def andThen_def split: sum.splits dest: getPieceAt_throws)

lemma toBigInt_throws: "toBigInt x = Inl e \<Longrightarrow> e = RangeError"
  by (auto simp: toBigInt_def split: number.splits)

lemma capturePiece_throws: "capturePiece b position = (Inl e, b1) \<Longrightarrow> e = RangeError"
  by (auto simp: capturePiece_def Let_def split: if_splits sum.splits dest: toBigInt_throws)

lemma enPassantCapture_throws:
  "enPassantCapture b piece fromCoords toCoords to = (Inl e, b1) \<Longrightarrow>
   e = TypeError \<or> e = RangeError"
  by (auto simp: enPassantCapture_def Let_def
           split: if_splits sum.splits prod.splits
           dest: isEmpty_throws capturePiece_throws)

lemma relocate_throws:
  "relocate b w bl fromIndex toIndex t = (Inl e, b1) \<Longrightarrow> e = RangeError"
  by (auto simp: relocate_def Let_def split: if_splits sum.splits dest: toBigInt_throws)

lemma updateEnPassantFlags_throws:
  "updateEnPassantFlags b piece fromCoords toCoords toIndex = (Inl e, b1) \<Longrightarrow> e = RangeError"
  by (auto simp: updateEnPassantFlags_def Let_def split: if_splits sum.splits
           dest: toBigInt_throws)

lemma movePiece_throws:
  "movePiece b from to = (Inl e, b1) \<Longrightarrow> e = TypeError \<or> e = RangeError"
  by (auto simp: movePiece_def Let_def
           split: sum.splits option.splits prod.splits
           dest: getPieceAt_throws enPassantCapture_throws relocate_throws
                 updateEnPassantFlags_throws)

lemma distribution_throws: "distribution b squares = Inl e \<Longrightarrow> e = TypeError"
  by (induction squares)
     (auto simp: andThen_def split: sum.splits dest: getPieceAt_throws)

lemma sendBoard_throws: "sendBoard g = Inl e \<Longrightarrow> e = TypeError"
  by (auto simp: sendBoard_def getDistribution_def andThen_def
           split: if_splits sum.splits dest: distribution_throws)

text \<open>
  Claim C8. For every rejected move submission (illegal destination, empty source
  square, out of turn, or capturing an own piece), the board and the game state (turn,
  history, status) are left entirely unchanged: whenever \<open>move\<close> throws one of its four
  error messages, the game it leaves behind is the game it was called on.
\<close>

theorem move_rejected_unchanged:
  "move n g player from to = Some (Some e, g') \<Longrightarrow>
   e = InvalidMove \<or> e = NoPieceAt \<or> e = NotYourTurn \<or> e = CannotCaptureOwnPiece \<Longrightarrow>
   g' = g"
  by (auto simp: move_def Let_def
           split: option.splits sum.splits if_splits prod.splits bool.splits
           dest: movePiece_throws sendBoard_throws)

theorem move_rejected_unchanged_witness:
  "move 1 startedGame whitePlayer ''e4'' ''e5'' = Some (Some InvalidMove, startedGame) \<and>
   move 1 startedGame whitePlayer ''e7'' ''e5'' = Some (Some NotYourTurn, startedGame)"
proof -
  have "map_option fst (move 1 startedGame whitePlayer ''e4'' ''e5'') = Some (Some InvalidMove)"
    by code_simp
  then obtain g1 where
    m1: "move 1 startedGame whitePlayer ''e4'' ''e5'' = Some (Some InvalidMove, g1)"
    by (cases "move 1 startedGame whitePlayer ''e4'' ''e5''") auto
  have "map_option fst (move 1 startedGame whitePlayer ''e7'' ''e5'') = Some (Some NotYourTurn)"
    by code_simp
  then obtain g2 where
    m2: "move 1 startedGame whitePlayer ''e7'' ''e5'' = Some (Some NotYourTurn, g2)"
    by (cases "move 1 startedGame whitePlayer ''e7'' ''e5''") auto
  from move_rejected_unchanged [OF m1] move_rejected_unchanged [OF m2] m1 m2
  show ?thesis by simp
qed

section \<open>The turn is not enforced\<close>

text \<open>
  Claim C7 says that a move fails with the not-your-turn error whenever the submitting
  player's side differs from the game's current turn. \<open>move\<close> never reads \<open>turn\<close>: it
  compares the colour of the piece on the source square with the player's side. After
  white's e2-e4 the turn is black's, and white's next submission d2-d4 is accepted.
\<close>

theorem move_accepts_out_of_turn:
  "map_option turn (play 1 startedGame [(whitePlayer, ''e2'', ''e4'')]) = Some ''black'' \<and>
   side whitePlayer = White \<and>
   map_option (\<lambda>g. (turn g, history g)) (play 1 startedGame twoWhiteMoves) =
     Some (''black'', [''e2 e4'', ''d2 d4''])"
  by code_simp

section \<open>A capture leaves two pieces on one square\<close>

text \<open>
  Claim C3 says that on every board reached from the initial position by accepted moves
  no square has its occupancy bit set in both bit fields. \<open>movePiece\<close> removes the
  captured piece only for an en-passant capture; after e2-e4, d7-d5, e4xd5 the square
  d5 is occupied in the white and in the black bit field.
\<close>

theorem capture_leaves_both_bits:
  "map_option (\<lambda>g. (isOccupiedBy (board g) ''d5'' White, isOccupiedBy (board g) ''d5'' Black))
     (play 1 startedGame pawnCapture) = Some (True, True)"
  by code_simp

section \<open>En passant is never offered\<close>

text \<open>
  Claim C5 says that after a double pawn advance the adjacent enemy pawn's legal moves
  include the en-passant capture. \<open>movePiece\<close> records the double advance in
  \<open>pawnsEnPassantWhite\<close> or \<open>pawnsEnPassantBlack\<close>, which no function reads;
  \<open>getPawnMoves\<close> looks for the tag \<open>PawnEnPassant\<close> in the piece bit field, where
  the pawn keeps the tag \<open>Pawn\<close>. After e2-e4, a7-a6, e4-e5, d7-d5 the legal moves of
  the pawn on e5 are e6 alone, and the capture e5xd6 is rejected as an invalid move.
\<close>

theorem enPassant_not_offered:
  "map_option (\<lambda>g. (getLegalMoves 1 (board g) ''e5'',
                      map_option fst (move 1 g whitePlayer ''e5'' ''d6'')))
     (play 1 startedGame enPassantOpening) =
   Some (Some (Inr [''e6'']), Some (Some InvalidMove))"
  by code_simp

section \<open>The status after a move\<close>

lemma foolsMate_facts:
  "map_option (\<lambda>g. (state g, isColorInCheck 1 (board g) White,
                      isCheckmate 2 (board g) ''e1'' White,
                      getLegalMoves 1 (board g) ''a2''))
     (play 1 startedGame foolsMate) =
   Some (Active, Some (Inr True), Some (Inr True), Some (Inr [''a3'', ''a4'']))"
  by code_simp

lemma move_state: "move n g player from to = Some (r, g') \<Longrightarrow> state g' = state g"
  by (auto simp: move_def Let_def
           split: option.splits sum.splits if_splits prod.splits bool.splits)

text \<open>
  Claim C4, as amended. \<open>move\<close> makes no status transition: whatever it returns or
  throws, the status of the game afterwards is the status before. In particular the
  fool's-mate sequence f2-f3, e7-e5, g2-g4, d8-h4 is accepted and ends with the status
  still \<open>Active\<close>, with white in check and \<open>isCheckmate\<close> true for the white king on
  e1 (the king is attacked and has no legal move).
\<close>

theorem move_keeps_state:
  "(move n g player from to = Some (r, g') \<longrightarrow> state g' = state g) \<and>
   map_option (\<lambda>g. (state g, isColorInCheck 1 (board g) White,
                      isCheckmate 2 (board g) ''e1'' White))
     (play 1 startedGame foolsMate) = Some (Active, Some (Inr True), Some (Inr True))"
proof
  show "move n g player from to = Some (r, g') \<longrightarrow> state g' = state g"
    by (auto dest: move_state)
next
  from foolsMate_facts
  show "map_option (\<lambda>g. (state g, isColorInCheck 1 (board g) White,
                      isCheckmate 2 (board g) ''e1'' White))
     (play 1 startedGame foolsMate) = Some (Active, Some (Inr True), Some (Inr True))"
    by (cases "play 1 startedGame foolsMate") auto
qed

theorem move_keeps_state_witness:
  "\<exists>g'. move 1 startedGame whitePlayer ''f2'' ''f3'' = Some (None, g') \<and>
        state g' = state startedGame"
proof -
  have "map_option fst (move 1 startedGame whitePlayer ''f2'' ''f3'') = Some None"
    by code_simp
  then obtain g' where m: "move 1 startedGame whitePlayer ''f2'' ''f3'' = Some (None, g')"
    by (cases "move 1 startedGame whitePlayer ''f2'' ''f3''") auto
  from move_keeps_state [THEN conjunct1, rule_format, OF m] m show ?thesis by simp
qed

text \<open>
  Claim C4 as stated fails: after the fool's-mate sequence the status is not
  \<open>Checkmate\<close>, and white still has legal moves (the pawn on a2 can go to a3 and a4).
\<close>

theorem foolsMate_not_checkmate:
  "map_option state (play 1 startedGame foolsMate) \<noteq> Some Checkmate \<and>
   map_option (\<lambda>g. getLegalMoves 1 (board g) ''a2'') (play 1 startedGame foolsMate) =
     Some (Some (Inr [''a3'', ''a4'']))"
  using foolsMate_facts by (cases "play 1 startedGame foolsMate") auto

section \<open>Which moves the check filter removes\<close>







section \<open>Castling after the king has moved\<close>

lemma kingReturns_facts:
  "map_option (\<lambda>g. (history g, canCastle 1 (board g) White KingSide))
     (play 1 startedGame kingReturns) =
   Some ([''g1 f3'', ''a7 a6'', ''g2 g3'', ''a6 a5'', ''f1 g2'', ''a5 a4'',
          ''e1 f1'', ''a4 a3'', ''f1 e1''], Some (Inr True))"
  by code_simp

lemma castleThroughCheck_facts:
  "map_option (\<lambda>g. (canCastle 1 (board g) White KingSide,
                      isKingInCheck 1 (board g) ''f1'' White))
     (play 1 startedGame castleThroughCheck) = Some (Some (Inr True), Some (Inr True))"
  by code_simp

text \<open>
  Claim C6 says that \<open>canCastle(color, side)\<close> is true if and only if the king and the
  rook have not moved, the squares between them are empty, and the king's square, the
  square it passes over and its destination are not attacked. The code falls short of it
  in two places. Under its comment "Check if the king or rook has moved" it only looks
  at the type tags on the home squares, which a king that went away and came back still
  carries: after g1-f3, a7-a6, g2-g3, a6-a5, f1-g2, a5-a4, e1-f1, a4-a3, f1-e1, all
  accepted, \<open>canCastle(white, king)\<close> is true although the white king has moved twice.
  And it never asks whether the square the king passes over is attacked: after g1-f3,
  g8-f6, g2-g3, f6-g4, f1-g2, g4-e3 the black knight on e3 attacks f1, and
  \<open>canCastle(white, king)\<close> is true.
\<close>

theorem canCastle_after_king_moved:
  "map_option (\<lambda>g. (history g, canCastle 1 (board g) White KingSide))
     (play 1 startedGame kingReturns) =
   Some ([''g1 f3'', ''a7 a6'', ''g2 g3'', ''a6 a5'', ''f1 g2'', ''a5 a4'',
          ''e1 f1'', ''a4 a3'', ''f1 e1''], Some (Inr True)) \<and>
   map_option (\<lambda>g. (canCastle 1 (board g) White KingSide,
                      isKingInCheck 1 (board g) ''f1'' White))
     (play 1 startedGame castleThroughCheck) = Some (Some (Inr True), Some (Inr True))"
  using kingReturns_facts castleThroughCheck_facts by (rule conjI)

theorem canCastle_after_king_moved_witness:
  "\<exists>g. play 1 startedGame kingReturns = Some g \<and>
        canCastle 1 (board g) White KingSide = Some (Inr True)"
  using canCastle_after_king_moved
  by (cases "play 1 startedGame kingReturns") auto

section \<open>Two kings recurse into each other\<close>

lemma checkLoop_skip:
  assumes "\<forall>pos \<in> set pre. isOccupiedBy b pos opp \<longrightarrow>
             (\<exists>ms. legal pos = Some (Inr ms) \<and> kp \<notin> set ms)"
  shows "checkLoop legal b kp opp (pre @ rest) = checkLoop legal b kp opp rest"
  using assms by (induction pre) (auto simp: andThenF_def)

lemma getLegalMovesWith_not_king:
  assumes "getPieceAt b pos = Inr (Some p)" "pieceType p \<noteq> King" "pieceType p \<noteq> KingCastle"
  shows "getLegalMovesWith check b pos = getLegalMovesWith check' b pos"
  using assms by (simp add: getLegalMovesWith_def andThenF_def Let_def)

lemma harmless_skip:
  assumes "list_all (harmless b opp kp) pre"
  shows "checkLoop (getLegalMovesWith check b) b kp opp (pre @ rest) =
         checkLoop (getLegalMovesWith check b) b kp opp rest"
proof (rule checkLoop_skip, intro ballI impI)
  fix pos assume "pos \<in> set pre" and occ: "isOccupiedBy b pos opp"
  with assms have h: "harmless b opp kp pos" by (simp add: list_all_iff)
  from h occ obtain p ms where p: "getPieceAt b pos = Inr (Some p)"
    "pieceType p \<noteq> King" "pieceType p \<noteq> KingCastle"
    and ms: "getLegalMovesWith (\<lambda>q c. None) b pos = Some (Inr ms)" "kp \<notin> set ms"
    by (auto simp: harmless_def split: sum.splits option.splits)
  from getLegalMovesWith_not_king [OF p, of check "\<lambda>q c. None"] ms
  show "\<exists>ms. getLegalMovesWith check b pos = Some (Inr ms) \<and> kp \<notin> set ms"
    by simp
qed

lemma squares_before_e8:
  "allSquares = take 60 allSquares @ ''e8'' # drop 61 allSquares"
  by code_simp

lemma squares_before_e1:
  "allSquares = take 4 allSquares @ ''e1'' # drop 5 allSquares"
  by code_simp

lemma black_harmless:
  "list_all (harmless openKingsBoard Black ''e2'') (take 60 allSquares)"
  by code_simp

lemma white_harmless:
  "list_all (harmless openKingsBoard White ''e7'') (take 4 allSquares)"
  by code_simp

lemma kings_facts:
  "isOccupiedBy openKingsBoard ''e8'' Black"
  "\<not> isOccupiedBy openKingsBoard ''e8'' White"
  "getPieceAt openKingsBoard ''e8'' =
     Inr (Some \<lparr> pieceColor = Black, pieceType = King, piecePosition = ''e8'',
                 pieceSymbol = Some ''k'' \<rparr>)"
  "positionToCoordinates ''e8'' = \<lparr> row = Num 7, col = 4 \<rparr>"
  "coordinatesToPosition \<lparr> row = Num 6, col = 4 \<rparr> = ''e7''"
  "isEmpty openKingsBoard ''e7'' = Inr True"
  "isOccupiedBy openKingsBoard ''e1'' White"
  "getPieceAt openKingsBoard ''e1'' =
     Inr (Some \<lparr> pieceColor = White, pieceType = King, piecePosition = ''e1'',
                 pieceSymbol = Some ''K'' \<rparr>)"
  "positionToCoordinates ''e1'' = \<lparr> row = Num 0, col = 4 \<rparr>"
  "coordinatesToPosition \<lparr> row = Num 1, col = 4 \<rparr> = ''e2''"
  "isEmpty openKingsBoard ''e2'' = Inr True"
  by code_simp+

lemma black_king_diverges:
  "check ''e7'' Black = None \<Longrightarrow> getLegalMovesWith check openKingsBoard ''e8'' = None"
  by (simp add: getLegalMovesWith_def getKingMovesWith_def kings_facts andThenF_def
        PieceType_defs Let_def)

lemma white_king_diverges:
  "check ''e2'' White = None \<Longrightarrow> getLegalMovesWith check openKingsBoard ''e1'' = None"
  by (simp add: getLegalMovesWith_def getKingMovesWith_def kings_facts andThenF_def
        PieceType_defs Let_def)

lemma attack_on_e2_diverges:
  assumes "check ''e7'' Black = None"
  shows "checkLoop (getLegalMovesWith check openKingsBoard) openKingsBoard ''e2'' Black
           allSquares = None"
proof -
  have "checkLoop (getLegalMovesWith check openKingsBoard) openKingsBoard ''e2'' Black
          (take 60 allSquares @ ''e8'' # drop 61 allSquares) =
        checkLoop (getLegalMovesWith check openKingsBoard) openKingsBoard ''e2'' Black
          (''e8'' # drop 61 allSquares)"
    by (rule harmless_skip [OF black_harmless])
  also have "\<dots> = None"
    using kings_facts(1) black_king_diverges [of check, OF assms]
    by (simp add: andThenF_def)
  finally show ?thesis using squares_before_e8 by simp
qed

lemma attack_on_e7_diverges:
  assumes "check ''e2'' White = None"
  shows "checkLoop (getLegalMovesWith check openKingsBoard) openKingsBoard ''e7'' White
           allSquares = None"
proof -
  have "checkLoop (getLegalMovesWith check openKingsBoard) openKingsBoard ''e7'' White
          (take 4 allSquares @ ''e1'' # drop 5 allSquares) =
        checkLoop (getLegalMovesWith check openKingsBoard) openKingsBoard ''e7'' White
          (''e1'' # drop 5 allSquares)"
    by (rule harmless_skip [OF white_harmless])
  also have "\<dots> = None"
    using kings_facts(7) white_king_diverges [of check, OF assms]
    by (simp add: andThenF_def)
  finally show ?thesis using squares_before_e1 by simp
qed

lemma kings_recurse_forever:
  "isKingInCheck n openKingsBoard ''e2'' White = None \<and>
   isKingInCheck n openKingsBoard ''e7'' Black = None"
proof (induction n)
  case 0
  show ?case by simp
next
  case (Suc n)
  then show ?case
    by (simp add: opponent_def attack_on_e2_diverges attack_on_e7_diverges)
qed

text \<open>
  Claim C2 says that \<open>isKingInCheck\<close> terminates on every board because it does not
  recurse into the attacking king's check-filtered move generation. It does recurse:
  \<open>isKingInCheck\<close> asks \<open>getLegalMoves\<close> for the moves of every opposing piece, the
  opposing king included, and \<open>getKingMoves\<close> calls \<open>isKingInCheck\<close> for each free
  neighbour of that king. On the board after e2-e4, e7-e5 the question whether e2 is
  attacked by black needs the moves of the black king, which need to know whether e7 is
  attacked by white, which needs the moves of the white king, which need to know whether
  e2 is attacked by black: no amount of fuel yields a result.
\<close>

theorem isKingInCheck_diverges: "isKingInCheck n openKingsBoard ''e2'' White = None"
  using kings_recurse_forever by blast

end
